theory Spec2Isabelle
  imports Main
begin

text \<open>
  The typed object layer of \<^verbatim>\<open>netatmoapi/object/_common.py\<close> and the weekly
  timetable of \<^verbatim>\<open>netatmoapi/object/_data.py\<close>, as the code runs: constructing
  nodes from decoded values, the typed getters, resolving a timepoint to a
  datetime in a week (\<^verbatim>\<open>Timepoint.get_datetime\<close>), and the calls
  \<^verbatim>\<open>Timetable.get_week\<close>, \<^verbatim>\<open>Timetable.get_period\<close> and \<^verbatim>\<open>Schedule.get_period\<close>.
\<close>

section \<open>Exceptions and decoded values\<close>

text \<open>
  Every exception the modelled code can raise is a value of \<open>error\<close>; a fallible
  operation returns \<open>error + 'a\<close> with \<open>Inl\<close> the raised exception.
  \<open>ValueError\<close>, \<open>AttributeError\<close>, \<open>TypeError\<close> and \<open>NameError\<close> are
  Python's built-in exceptions, the \<open>Object...\<close> ones are the classes of
  \<^verbatim>\<open>_common.py\<close> (the attribute and type errors carry the key they were raised
  for).
\<close>

datatype error =
    ValueError
  | AttributeError
  | TypeError
  | NameError
  | ObjectAttributeError string
  | ObjectDataError
  | ObjectIdError
  | ObjectTypeError string

text \<open>
  A float is carried through unchanged and never computed with; it is kept as the
  pair of its mantissa and exponent, or as one of the three special values.
\<close>

datatype pyfloat = Finite int int | Infinity bool | NaN

text \<open>
  \<open>pyval\<close> is a value handed to a constructor (\<^verbatim>\<open>item: Any\<close>): what a JSON decoder
  produces, and \<open>POther\<close> for any object that is none of these (a set, an
  arbitrary instance). A dict has distinct keys; its items are listed in
  iteration order.
\<close>

datatype pyval =
    PNone
  | PBool bool
  | PInt int
  | PFloat pyfloat
  | PStr string
  | PSeq "pyval list"
  | PMap "(string \<times> pyval) list"
  | POther

text \<open>
  \<open>obj\<close> is what \<^verbatim>\<open>Object._assign\<close> stores: the scalar kept as it is, or a nested
  \<^verbatim>\<open>SequenceObject\<close> / \<^verbatim>\<open>MappingObject\<close> (its \<^verbatim>\<open>_sequence\<close> list, its
  \<^verbatim>\<open>_mapping\<close> dict in insertion order).
\<close>

datatype obj =
    ONone
  | OBool bool
  | OInt int
  | OFloat pyfloat
  | OStr string
  | SequenceObject "obj list"
  | MappingObject "(string \<times> obj) list"

section \<open>The object layer (\<^verbatim>\<open>_common.py\<close>)\<close>

text \<open>
  \<^verbatim>\<open>class ObjectDataError(ObjectError):
      def __init__(self) -> None:
          super().__init__(f"{type(obj).__name__} attribute '{name}' is missing")\<close>

  The initialiser takes no argument besides \<^verbatim>\<open>self\<close>, and its body reads the
  undefined names \<^verbatim>\<open>obj\<close> and \<^verbatim>\<open>name\<close>. Evaluating the call expression
  \<^verbatim>\<open>ObjectDataError(a1, ..., an)\<close> therefore never yields an exception instance:
  with \<open>n > 0\<close> the call itself raises \<open>TypeError\<close> (too many positional arguments),
  with \<open>n = 0\<close> the body raises \<open>NameError\<close>. \<open>ObjectDataError_init n\<close> is the
  exception that a statement \<^verbatim>\<open>raise ObjectDataError(a1, ..., an)\<close> ends with.
\<close>

definition ObjectDataError_init :: "nat \<Rightarrow> error" where
  "ObjectDataError_init nargs = (if nargs = 0 then NameError else TypeError)"

text \<open>
  \<^verbatim>\<open>def _assign(self, item, method):
      if item is None: method(None); return
      for type_ in (bool, int, float, str):
          if isinstance(item, type_): method(type_(item)); return
      if isinstance(item, Sequence): method(SequenceObject(item)); return
      if isinstance(item, Mapping): method(MappingObject(item)); return
      raise ObjectDataError(self, item)\<close>

  \<open>assign\<close> returns the value passed to \<^verbatim>\<open>method\<close>; \<open>SequenceObject_init\<close> and
  \<open>MappingObject_init\<close> are the two constructors' loops, which stop at the first
  item whose \<^verbatim>\<open>_assign\<close> raises. \<^verbatim>\<open>bool\<close> is tested ahead of \<^verbatim>\<open>int\<close>.
\<close>

fun assign :: "pyval \<Rightarrow> error + obj"
  and SequenceObject_init :: "pyval list \<Rightarrow> error + obj list"
  and MappingObject_init :: "(string \<times> pyval) list \<Rightarrow> error + (string \<times> obj) list"
where
  "assign PNone = Inr ONone"
| "assign (PBool b) = Inr (OBool b)"
| "assign (PInt i) = Inr (OInt i)"
| "assign (PFloat f) = Inr (OFloat f)"
| "assign (PStr s) = Inr (OStr s)"
| "assign (PSeq xs) =
     (case SequenceObject_init xs of Inl e \<Rightarrow> Inl e | Inr os \<Rightarrow> Inr (SequenceObject os))"
| "assign (PMap kvs) =
     (case MappingObject_init kvs of Inl e \<Rightarrow> Inl e | Inr m \<Rightarrow> Inr (MappingObject m))"
| "assign POther = Inl (ObjectDataError_init 2)"
| "SequenceObject_init [] = Inr []"
| "SequenceObject_init (item # sequence) =
     (case assign item of
        Inl e \<Rightarrow> Inl e
      | Inr v \<Rightarrow> (case SequenceObject_init sequence of
                    Inl e \<Rightarrow> Inl e
                  | Inr vs \<Rightarrow> Inr (v # vs)))"
| "MappingObject_init [] = Inr []"
| "MappingObject_init (kv # mapping) =
     (case assign (snd kv) of
        Inl e \<Rightarrow> Inl e
      | Inr v \<Rightarrow> (case MappingObject_init mapping of
                    Inl e \<Rightarrow> Inl e
                  | Inr m \<Rightarrow> Inr ((fst kv, v) # m)))"

text \<open>
  The shapes the layer represents: null, bool, int, float, string, and sequences
  and mappings of representable values.
\<close>

fun representable :: "pyval \<Rightarrow> bool" where
  "representable (PSeq xs) = list_all representable xs"
| "representable (PMap kvs) = list_all (\<lambda>kv. representable (snd kv)) kvs"
| "representable POther = False"
| "representable v = True"

text \<open>
  The \<^verbatim>\<open>type_\<close> argument of \<^verbatim>\<open>_get_type\<close> and Python's \<^verbatim>\<open>isinstance\<close> on stored
  values: \<^verbatim>\<open>bool\<close> is a subclass of \<^verbatim>\<open>int\<close>, so a stored boolean is an instance
  of \<^verbatim>\<open>int\<close> as well.
\<close>

datatype pytype = Tbool | Tint | Tstr

fun isinstance :: "obj \<Rightarrow> pytype \<Rightarrow> bool" where
  "isinstance (OBool b) Tbool = True"
| "isinstance (OBool b) Tint = True"
| "isinstance (OInt i) Tint = True"
| "isinstance (OStr s) Tstr = True"
| "isinstance v t = False"

text \<open>
  \<^verbatim>\<open>def _get_type(self, key, type_):
      try:
          value = self[key]
          if not isinstance(value, type_):
              raise ObjectTypeError(self, key, value) from None
          return value
      except KeyError:
          raise ObjectAttributeError(self, key) from None\<close>
\<close>

definition get_type :: "(string \<times> obj) list \<Rightarrow> string \<Rightarrow> pytype \<Rightarrow> error + obj" where
  "get_type self key type' =
     (case map_of self key of
        None \<Rightarrow> Inl (ObjectAttributeError key)
      | Some v \<Rightarrow> if \<not> isinstance v type' then Inl (ObjectTypeError key) else Inr v)"

definition get_str :: "(string \<times> obj) list \<Rightarrow> string \<Rightarrow> error + obj" where
  "get_str self key = get_type self key Tstr"

definition get_int :: "(string \<times> obj) list \<Rightarrow> string \<Rightarrow> error + obj" where
  "get_int self key = get_type self key Tint"

definition get_bool :: "(string \<times> obj) list \<Rightarrow> string \<Rightarrow> error + obj" where
  "get_bool self key = get_type self key Tbool"

text \<open>
  The properties of \<^verbatim>\<open>_data.py\<close> that are declared \<^verbatim>\<open>Optional\<close>:
  \<^verbatim>\<open>HomeData.name\<close> returns \<^verbatim>\<open>self._get_str("name")\<close> and
  \<^verbatim>\<open>ModuleData.room_id\<close> returns \<^verbatim>\<open>self._get_int("room_id")\<close>.
\<close>

definition HomeData_name :: "(string \<times> obj) list \<Rightarrow> error + obj" where
  "HomeData_name self = get_str self ''name''"

definition ModuleData_room_id :: "(string \<times> obj) list \<Rightarrow> error + obj" where
  "ModuleData_room_id self = get_int self ''room_id''"

section \<open>Dates, times and time zones\<close>

text \<open>
  Durations and times of day are counted in microseconds, the resolution of
  Python's \<^verbatim>\<open>datetime\<close>.
\<close>

definition MINUTE :: int where
  "MINUTE = 60000000"

definition DAY :: int where
  "DAY = 1440 * MINUTE"

text \<open>
  The \<^verbatim>\<open>tzinfo\<close> objects. \<open>FixedOffset off\<close> is a zone with the constant UTC offset
  \<open>off\<close> that is no \<^verbatim>\<open>pytz.tzinfo.DstTzInfo\<close> (the standard library's
  \<^verbatim>\<open>datetime.timezone\<close>, \<^verbatim>\<open>pytz.utc\<close>). \<open>DstTzInfo fromutc localize off\<close> is an
  instance of a pytz zone with daylight saving: pytz is not part of the
  repository, so the zone's transition data are parameters: \<open>fromutc u\<close> is the UTC
  offset the zone has at the UTC instant \<open>u\<close>, \<open>localize w\<close> the UTC offset that
  \<^verbatim>\<open>tz.localize\<close> (called with its default arguments) chooses for the naive
  wall-clock value \<open>w\<close>, and \<open>off\<close> the offset of this very instance (every pytz
  instance has one fixed \<^verbatim>\<open>utcoffset\<close>; \<^verbatim>\<open>localize\<close> and \<^verbatim>\<open>fromutc\<close> attach the
  instance that fits). \<open>OtherTz offset fromutc\<close> is an instance of any other
  \<^verbatim>\<open>tzinfo\<close> class (\<^verbatim>\<open>zoneinfo.ZoneInfo\<close>, a dateutil zone, a class of the caller's),
  one object for all its datetimes: \<open>offset w f\<close> is what \<^verbatim>\<open>tz.utcoffset(dt)\<close>
  returns for a datetime with the wall-clock value \<open>w\<close> and the fold \<open>f\<close>
  (\<open>None\<close> when it returns \<^verbatim>\<open>None\<close>), and \<open>fromutc u\<close> is the UTC offset and the
  fold of the datetime that \<^verbatim>\<open>tz.fromutc\<close> returns for the UTC instant \<open>u\<close>, or the
  exception it raises (the method inherited from \<^verbatim>\<open>tzinfo\<close> raises \<open>ValueError\<close>
  when \<^verbatim>\<open>utcoffset\<close> returns \<^verbatim>\<open>None\<close>). The offsets are ones Python accepts,
  strictly between minus and plus 24 hours.
\<close>

datatype tzinfo =
    FixedOffset int
  | DstTzInfo "int \<Rightarrow> int" "int \<Rightarrow> int" int
  | OtherTz "int \<Rightarrow> bool \<Rightarrow> int option" "int \<Rightarrow> error + int \<times> bool"

text \<open>
  A \<^verbatim>\<open>datetime\<close>: the proleptic Gregorian ordinal of its date (\<^verbatim>\<open>date.toordinal()\<close>,
  day 1 is Monday 0001-01-01), its time of day in microseconds, its \<^verbatim>\<open>tzinfo\<close>
  (\<open>None\<close> when it has none) and its \<^verbatim>\<open>fold\<close>. Python's limits on the year (1 to
  9999, \<^verbatim>\<open>OverflowError\<close> beyond) are not modelled: dates are unbounded.
\<close>

record datetime =
  date :: int
  time :: int
  tzinfo :: "tzinfo option"
  fold :: bool

definition combine :: "int \<Rightarrow> int \<Rightarrow> datetime" where
  "combine d t = \<lparr>date = d, time = t, tzinfo = None, fold = False\<rparr>"

definition weekday :: "datetime \<Rightarrow> int" where
  "weekday dt = (date dt + 6) mod 7"

definition wall :: "datetime \<Rightarrow> int" where
  "wall dt = date dt * DAY + time dt"

text \<open>
  \<^verbatim>\<open>dt.utcoffset()\<close>: \<^verbatim>\<open>None\<close> without a \<^verbatim>\<open>tzinfo\<close>, otherwise what the
  \<^verbatim>\<open>tzinfo\<close> reports for this datetime. Python calls a datetime naive when this is
  \<^verbatim>\<open>None\<close> and aware otherwise.
\<close>

definition utcoffset :: "datetime \<Rightarrow> int option" where
  "utcoffset dt =
     (case tzinfo dt of
        None \<Rightarrow> None
      | Some (FixedOffset off) \<Rightarrow> Some off
      | Some (DstTzInfo zone_fromutc localize off) \<Rightarrow> Some off
      | Some (OtherTz offset tz_fromutc) \<Rightarrow> offset (wall dt) (fold dt))"

text \<open>
  \<^verbatim>\<open>tz.fromutc\<close> for the UTC instant \<open>u\<close>: the datetime in the zone \<open>tz\<close> whose
  wall-clock value is \<open>u\<close> plus the zone's offset at that instant.
\<close>

definition at_offset :: "int \<Rightarrow> int \<Rightarrow> tzinfo \<Rightarrow> bool \<Rightarrow> datetime" where
  "at_offset u off tz f =
     \<lparr>date = (u + off) div DAY, time = (u + off) mod DAY, tzinfo = Some tz, fold = f\<rparr>"

fun fromutc :: "tzinfo \<Rightarrow> int \<Rightarrow> error + datetime" where
  "fromutc (FixedOffset off) u = Inr (at_offset u off (FixedOffset off) False)"
| "fromutc (DstTzInfo zone_fromutc localize off) u =
     Inr (at_offset u (zone_fromutc u) (DstTzInfo zone_fromutc localize (zone_fromutc u)) False)"
| "fromutc (OtherTz offset tz_fromutc) u =
     (case tz_fromutc u of
        Inl e \<Rightarrow> Inl e
      | Inr r \<Rightarrow> Inr (at_offset u (fst r) (OtherTz offset tz_fromutc) (snd r)))"

text \<open>
  \<^verbatim>\<open>dt.astimezone(tz)\<close>: the same object when \<open>tz\<close> is its own \<^verbatim>\<open>tzinfo\<close>;
  otherwise \<^verbatim>\<open>tz.fromutc\<close> of its UTC instant, where a datetime whose
  \<^verbatim>\<open>utcoffset()\<close> is \<^verbatim>\<open>None\<close> is read as local time of the system's zone.
  \<open>localzone w f\<close> is the UTC offset the system's zone has at the local
  wall-clock value \<open>w\<close> with the fold \<open>f\<close>. Python tests \<^verbatim>\<open>tz is self.tzinfo\<close>, the
  identity of the two objects; the model takes two zones that are equal for one
  object.
\<close>

definition astimezone :: "(int \<Rightarrow> bool \<Rightarrow> int) \<Rightarrow> datetime \<Rightarrow> tzinfo \<Rightarrow> error + datetime" where
  "astimezone localzone dt tz =
     (if tzinfo dt = Some tz then Inr dt
      else fromutc tz
             (wall dt - (case utcoffset dt of
                           None \<Rightarrow> localzone (wall dt) (fold dt)
                         | Some off \<Rightarrow> off)))"


text \<open>
  \<^verbatim>\<open>def _dt_localize(dt, tz):
      if isinstance(tz, DstTzInfo): return tz.localize(dt)
      else: return dt.replace(tzinfo=tz)\<close>
\<close>

fun dt_localize :: "datetime \<Rightarrow> tzinfo option \<Rightarrow> datetime" where
  "dt_localize dt (Some (DstTzInfo zone_fromutc localize off)) =
     dt\<lparr>tzinfo := Some (DstTzInfo zone_fromutc localize (localize (wall dt)))\<rparr>"
| "dt_localize dt tz = dt\<lparr>tzinfo := tz\<rparr>"

text \<open>
  \<^verbatim>\<open>timedelta(minutes=m)\<close> is normalised by Python to \<^verbatim>\<open>days\<close> (any sign) and
  \<^verbatim>\<open>seconds\<close> in \<open>[0, 86400)\<close>; \<^verbatim>\<open>time(hour=h, minute=m)\<close> is a time of day.
\<close>

record timedelta =
  days :: int
  seconds :: int

definition timedelta_minutes :: "int \<Rightarrow> timedelta" where
  "timedelta_minutes m = \<lparr>days = m div 1440, seconds = (m mod 1440) * 60\<rparr>"

definition time_of :: "int \<Rightarrow> int \<Rightarrow> int" where
  "time_of hour minute = hour * 60 * MINUTE + minute * MINUTE"

text \<open>The defaults \<^verbatim>\<open>datetime.min\<close> and \<^verbatim>\<open>datetime.max\<close>: neither has a \<^verbatim>\<open>tzinfo\<close>.\<close>

definition datetime_min :: datetime where
  "datetime_min = \<lparr>date = 1, time = 0, tzinfo = None, fold = False\<rparr>"

definition datetime_max :: datetime where
  "datetime_max = \<lparr>date = 3652059, time = DAY - 1, tzinfo = None, fold = False\<rparr>"

section \<open>Timepoints (\<^verbatim>\<open>_data.py\<close>)\<close>

text \<open>
  A \<^verbatim>\<open>Timepoint\<close> is a \<^verbatim>\<open>MappingObject\<close> together with the home's time zone
  (\<^verbatim>\<open>self._timezone\<close>). Its properties \<^verbatim>\<open>zone_id\<close> and \<^verbatim>\<open>m_offset\<close> are
  \<^verbatim>\<open>self._get_int("zone_id")\<close> and \<^verbatim>\<open>self._get_int("m_offset")\<close>.
\<close>

record timepoint =
  tp_mapping :: "(string \<times> obj) list"
  tp_timezone :: tzinfo

definition zone_id :: "timepoint \<Rightarrow> error + obj" where
  "zone_id self = get_int (tp_mapping self) ''zone_id''"

definition m_offset :: "timepoint \<Rightarrow> error + obj" where
  "m_offset self = get_int (tp_mapping self) ''m_offset''"

text \<open>
  The number a value returned by \<^verbatim>\<open>_get_int\<close> stands for in arithmetic: such a
  value is an \<^verbatim>\<open>int\<close> or a \<^verbatim>\<open>bool\<close>, and \<^verbatim>\<open>True\<close> counts as 1.
\<close>

fun int_value :: "obj \<Rightarrow> int" where
  "int_value (OInt i) = i"
| "int_value (OBool b) = (if b then 1 else 0)"
| "int_value v = 0"

definition get_timedelta :: "timepoint \<Rightarrow> error + timedelta" where
  "get_timedelta self =
     (case m_offset self of
        Inl e \<Rightarrow> Inl e
      | Inr m \<Rightarrow> Inr (timedelta_minutes (int_value m)))"

text \<open>
  \<^verbatim>\<open>def get_datetime(self, week, home_timezone=False):
      if week.tzinfo is None:
          raise ValueError("Week must be aware datetime")
      week_timezone = week.tzinfo
      week = week.astimezone(self._timezone)
      week_start = _dt_localize(
          datetime.combine(week.date() + timedelta(days=-week.weekday()), time()),
          week.tzinfo)
      td = self.get_timedelta()
      dt = datetime.combine(
          week_start.date() + timedelta(days=td.days),
          time(hour=td.seconds // 3600, minute=td.seconds // 60 % 60))
      dt = _dt_localize(dt, self._timezone)
      return dt if home_timezone else dt.astimezone(week_timezone)\<close>

  The first argument of the model is the system's zone, which \<^verbatim>\<open>astimezone\<close> reads.
\<close>

definition get_datetime ::
  "(int \<Rightarrow> bool \<Rightarrow> int) \<Rightarrow> timepoint \<Rightarrow> datetime \<Rightarrow> bool \<Rightarrow> error + datetime" where
  "get_datetime localzone self week home_timezone =
     (case tzinfo week of
        None \<Rightarrow> Inl ValueError
      | Some week_timezone \<Rightarrow>
          (case astimezone localzone week (tp_timezone self) of
             Inl e \<Rightarrow> Inl e
           | Inr week' \<Rightarrow>
               (let week_start =
                      dt_localize (combine (date week' + (- weekday week')) 0) (tzinfo week')
                in case get_timedelta self of
                     Inl e \<Rightarrow> Inl e
                   | Inr td \<Rightarrow>
                       (let dt = combine (date week_start + days td)
                                   (time_of (seconds td div 3600) (seconds td div 60 mod 60));
                            dt' = dt_localize dt (Some (tp_timezone self))
                        in if home_timezone then Inr dt'
                           else astimezone localzone dt' week_timezone))))"

section \<open>Timetables and schedules (\<^verbatim>\<open>_data.py\<close>)\<close>

text \<open>
  An attribute reference \<^verbatim>\<open>self.name\<close> finds what \<^verbatim>\<open>__init__\<close> has assigned to the
  instance and what its class or a base class defines; no class of the
  repository defines \<^verbatim>\<open>__getattr__\<close>, so every other name raises
  \<open>AttributeError\<close>. The lists below hold, class by class, the names that do
  not begin with two underscores (no name looked up below does):
  \<^item> \<^verbatim>\<open>Object\<close> (\<^verbatim>\<open>_common.py\<close> lines 9 to 36) defines \<^verbatim>\<open>_assign\<close> and \<^verbatim>\<open>copy\<close>;
  \<^item> \<^verbatim>\<open>SequenceObject(Sequence, Object)\<close> (lines 39 to 61) assigns \<^verbatim>\<open>_sequence\<close> and
    defines \<^verbatim>\<open>_iter\<close> and \<^verbatim>\<open>_list\<close>; \<^verbatim>\<open>collections.abc.Sequence\<close> gives it \<^verbatim>\<open>index\<close>,
    \<^verbatim>\<open>count\<close> and \<^verbatim>\<open>_abc_impl\<close>;
  \<^item> \<^verbatim>\<open>MappingObject(Mapping, Object)\<close> (lines 64 to 101) assigns \<^verbatim>\<open>_mapping\<close> and
    defines \<^verbatim>\<open>_get_type\<close>, \<^verbatim>\<open>_get_str\<close>, \<^verbatim>\<open>_get_int\<close> and \<^verbatim>\<open>_get_bool\<close>;
    \<^verbatim>\<open>collections.abc.Mapping\<close> gives it \<^verbatim>\<open>get\<close>, \<^verbatim>\<open>keys\<close>, \<^verbatim>\<open>items\<close>, \<^verbatim>\<open>values\<close> and
    \<^verbatim>\<open>_abc_impl\<close>;
  \<^item> \<^verbatim>\<open>Timetable(SequenceObject)\<close> (\<^verbatim>\<open>_data.py\<close> lines 262 to 335) assigns
    \<^verbatim>\<open>_timezone\<close> and defines \<^verbatim>\<open>get_index\<close>, \<^verbatim>\<open>get_by_datetime\<close>, \<^verbatim>\<open>get_week\<close> and
    \<^verbatim>\<open>get_period\<close>;
  \<^item> \<^verbatim>\<open>Schedule(MappingObject)\<close> (lines 197 to 259) assigns \<^verbatim>\<open>_timezone\<close> and defines
    \<^verbatim>\<open>id\<close>, \<^verbatim>\<open>timetable\<close>, \<^verbatim>\<open>zones\<close>, \<^verbatim>\<open>name\<close>, \<^verbatim>\<open>selected\<close>, \<^verbatim>\<open>type\<close>,
    \<^verbatim>\<open>get_zone_by_datetime\<close>, \<^verbatim>\<open>get_week\<close> and \<^verbatim>\<open>get_period\<close>.
\<close>

definition Object_names :: "string list" where
  "Object_names = [''_assign'', ''copy'']"

definition SequenceObject_names :: "string list" where
  "SequenceObject_names =
     [''_sequence'', ''_iter'', ''_list'', ''index'', ''count'', ''_abc_impl''] @ Object_names"

definition MappingObject_names :: "string list" where
  "MappingObject_names =
     [''_mapping'', ''_get_type'', ''_get_str'', ''_get_int'', ''_get_bool'',
      ''get'', ''keys'', ''items'', ''values'', ''_abc_impl''] @ Object_names"

definition Timetable_names :: "string list" where
  "Timetable_names =
     [''_timezone'', ''get_index'', ''get_by_datetime'', ''get_week'', ''get_period'']
     @ SequenceObject_names"

definition Schedule_names :: "string list" where
  "Schedule_names =
     [''_timezone'', ''id'', ''timetable'', ''zones'', ''name'', ''selected'', ''type'',
      ''get_zone_by_datetime'', ''get_week'', ''get_period'']
     @ MappingObject_names"

text \<open>
  The attribute reference itself: the name when an instance with these names has
  it, \<open>AttributeError\<close> otherwise.
\<close>

definition getattr :: "string list \<Rightarrow> string \<Rightarrow> error + string" where
  "getattr names name = (if name \<in> set names then Inr name else Inl AttributeError)"

text \<open>
  A \<^verbatim>\<open>Timetable\<close> is its \<^verbatim>\<open>_sequence\<close> and its \<^verbatim>\<open>_timezone\<close>, a \<^verbatim>\<open>Schedule\<close> its
  \<^verbatim>\<open>_mapping\<close> and its \<^verbatim>\<open>_timezone\<close>.
\<close>

record timetable =
  sequence :: "obj list"
  tt_timezone :: tzinfo

record schedule =
  mapping :: "(string \<times> obj) list"
  s_timezone :: tzinfo

text \<open>
  \<^verbatim>\<open>def get_week(self, week, home_tz=False):                          # line 293
      if week.tzinfo is None:
          raise ValueError("week must be aware datetime")
      week_timepoints = [
          (timepoint.get_datetime(week, home_tz), timepoint)
          for timepoint in self.timetable                              # line 300
      ]
      if self.type in ("therm", "cooling"):
          if not week_timepoints:
              ValueError("Schedule has invalid timetable")
          if week_timepoints[0][1].zone_id == week_timepoints[-1][1].zone_id:
              del week_timepoints[0]
      week_timepoints.sort(key=lambda x: x[0])
      return tuple(week_timepoints)\<close>

  After the test of \<^verbatim>\<open>week.tzinfo\<close> the list comprehension first evaluates
  \<^verbatim>\<open>self.timetable\<close> on the \<^verbatim>\<open>Timetable\<close>. The statements after it run only if
  that reference finds an attribute; the model gives that case no value
  (\<open>undefined\<close>), and \<^verbatim>\<open>Timetable\<close> has no such name.
\<close>

definition get_week ::
  "timetable \<Rightarrow> datetime \<Rightarrow> bool \<Rightarrow> error + (datetime \<times> timepoint) list" where
  "get_week self week home_tz =
     (if tzinfo week = None then Inl ValueError
      else case getattr Timetable_names ''timetable'' of
             Inl e \<Rightarrow> Inl e
           | Inr found \<Rightarrow> undefined)"

text \<open>
  How a generator ends when it is run to its end: it returns or it raises.
\<close>

datatype outcome = Returned | Raised error

text \<open>
  \<^verbatim>\<open>def get_period(self, dt_from=datetime.min, dt_to=datetime.max,
                 count_max=None, home_tz=False):                     # line 314
      if dt_from.tzinfo is None or dt_to.tzinfo is None:
          raise ValueError("dt_from and dt_to must be aware datetimes")
      week = dt_from
      count = 0
      while True:
          for datetime_, timepoint in self.get_week_timepoints(week, home_tz):  # line 326
              if count == count_max or datetime_ > dt_to:
                  return
              if datetime_ < dt_from:
                  continue
              yield (datetime_, timepoint)
              count += 1
          if not count:
              return
          week = _dt_add_days(week, 7)\<close>

  The model is the run of the generator to its end: the entries it yields and
  how it ends. After the test of the two bounds the first pass of the loop
  evaluates \<^verbatim>\<open>self.get_week_timepoints\<close> on the \<^verbatim>\<open>Timetable\<close>, before anything is
  yielded; as in \<open>get_week\<close> the case that the reference finds an attribute has
  no value in the model.
\<close>

definition get_period ::
  "timetable \<Rightarrow> datetime \<Rightarrow> datetime \<Rightarrow> int option \<Rightarrow> bool
     \<Rightarrow> (datetime \<times> timepoint) list \<times> outcome" where
  "get_period self dt_from dt_to count_max home_tz =
     (if tzinfo dt_from = None \<or> tzinfo dt_to = None then ([], Raised ValueError)
      else case getattr Timetable_names ''get_week_timepoints'' of
             Inl e \<Rightarrow> ([], Raised e)
           | Inr found \<Rightarrow> undefined)"

text \<open>
  \<^verbatim>\<open>def get_period(self, dt_from=datetime.min, dt_to=datetime.max,
                 count_max=None, home_tz=False):                     # line 249
      for datetime_, timepoint in self.get_period_timepoints(
          dt_from, dt_to, count_max, home_tz
      ):                                                             # line 256
          yield (datetime_, self.get_zone_by_id(timepoint.zone_id))\<close>

  \<^verbatim>\<open>Schedule.get_period\<close> begins with the reference \<^verbatim>\<open>self.get_period_timepoints\<close> on
  the \<^verbatim>\<open>Schedule\<close>; it tests no bound itself.
\<close>

definition Schedule_get_period ::
  "schedule \<Rightarrow> datetime \<Rightarrow> datetime \<Rightarrow> int option \<Rightarrow> bool
     \<Rightarrow> (datetime \<times> (string \<times> obj) list option) list \<times> outcome" where
  "Schedule_get_period self dt_from dt_to count_max home_tz =
     (case getattr Schedule_names ''get_period_timepoints'' of
        Inl e \<Rightarrow> ([], Raised e)
      | Inr found \<Rightarrow> undefined)"

section \<open>Example inputs\<close>

text \<open>
  The inputs the examples below run on: the time zone \<^verbatim>\<open>timezone(timedelta(hours=2))\<close>,
  a timepoint \<^verbatim>\<open>Timepoint({"zone_id": z, "m_offset": m}, tz)\<close> of a home in that
  zone, the datetime that lies \<open>m\<close> minutes after Monday 2022-04-04 00:00 there
  (the ordinal of that date is 738249), a \<^verbatim>\<open>Timetable\<close> of that home built from
  items \<^verbatim>\<open>{"zone_id": z, "m_offset": m}\<close>, and a \<^verbatim>\<open>Schedule\<close> of type \<^verbatim>\<open>"therm"\<close>
  with such a timetable.
\<close>

definition example_tz :: tzinfo where
  "example_tz = FixedOffset (120 * MINUTE)"

definition example_timepoint :: "int \<Rightarrow> int \<Rightarrow> timepoint" where
  "example_timepoint z m =
     \<lparr>tp_mapping = [(''zone_id'', OInt z), (''m_offset'', OInt m)], tp_timezone = example_tz\<rparr>"

definition example_datetime :: "int \<Rightarrow> datetime" where
  "example_datetime m =
     \<lparr>date = 738249 + m div 1440, time = (m mod 1440) * MINUTE,
      tzinfo = Some example_tz, fold = False\<rparr>"

definition example_item :: "int \<Rightarrow> int \<Rightarrow> obj" where
  "example_item z m = MappingObject [(''zone_id'', OInt z), (''m_offset'', OInt m)]"

definition example_timetable :: "obj list \<Rightarrow> timetable" where
  "example_timetable items = \<lparr>sequence = items, tt_timezone = example_tz\<rparr>"

definition example_schedule :: "obj list \<Rightarrow> schedule" where
  "example_schedule items =
     \<lparr>mapping = [(''type'', OStr ''therm''), (''timetable'', SequenceObject items)],
      s_timezone = example_tz\<rparr>"

text \<open>
  An instance of a class \<^verbatim>\<open>T(tzinfo)\<close> whose \<^verbatim>\<open>utcoffset\<close> returns \<^verbatim>\<open>None\<close> and that
  keeps the inherited \<^verbatim>\<open>fromutc\<close>; and a system whose zone is UTC.
\<close>

definition no_offset_tz :: tzinfo where
  "no_offset_tz = OtherTz (\<lambda>w f. None) (\<lambda>u. Inl ValueError)"

definition system_utc :: "int \<Rightarrow> bool \<Rightarrow> int" where
  "system_utc w f = 0"

text \<open>
  \<^verbatim>\<open>datetime(2022, 4, 4, tzinfo=T())\<close>: its \<^verbatim>\<open>tzinfo\<close> is set and its \<^verbatim>\<open>utcoffset()\<close> is
  \<^verbatim>\<open>None\<close>, so it is a naive datetime.
\<close>

definition example_naive_week :: datetime where
  "example_naive_week = \<lparr>date = 738249, time = 0, tzinfo = Some no_offset_tz, fold = False\<rparr>"

section \<open>Evaluation\<close>

text \<open>
  Equality of time zones is decided for fixed offsets; with these equations the
  definitions evaluate on inputs whose zones are fixed offsets.
\<close>

lemma equal_tzinfo_code [code]:
  "HOL.equal (FixedOffset a) (FixedOffset b) \<longleftrightarrow> a = b"
  "HOL.equal (FixedOffset a) (DstTzInfo f l off) \<longleftrightarrow> False"
  "HOL.equal (DstTzInfo f l off) (FixedOffset b) \<longleftrightarrow> False"
  "HOL.equal (FixedOffset a) (OtherTz g h) \<longleftrightarrow> False"
  "HOL.equal (OtherTz g h) (FixedOffset b) \<longleftrightarrow> False"
  by (simp_all add: equal)

section \<open>Constructing nodes\<close>

text \<open>
  Construction succeeds exactly on the representable values, and every failure is
  the \<open>TypeError\<close> of the ill-formed \<^verbatim>\<open>raise\<close>: no input makes it end with an
  \<open>ObjectDataError\<close>.
\<close>

lemma assign_total:
  "(representable v \<longrightarrow> (\<exists>obj. assign v = Inr obj))
     \<and> (\<not> representable v \<longrightarrow> assign v = Inl TypeError)"
  "(list_all representable xs \<longrightarrow> (\<exists>os. SequenceObject_init xs = Inr os))
     \<and> (\<not> list_all representable xs \<longrightarrow> SequenceObject_init xs = Inl TypeError)"
  "(list_all (\<lambda>kv. representable (snd kv)) kvs \<longrightarrow> (\<exists>m. MappingObject_init kvs = Inr m))
     \<and> (\<not> list_all (\<lambda>kv. representable (snd kv)) kvs
          \<longrightarrow> MappingObject_init kvs = Inl TypeError)"
  by (induction v and xs and kvs rule: assign_SequenceObject_init_MappingObject_init.induct)
     (auto simp: ObjectDataError_init_def split: sum.splits)

lemma assign_never_ObjectDataError: "assign v \<noteq> Inl ObjectDataError"
  using assign_total(1)[of v] by (cases "representable v") auto

lemma assign_bool: "assign (PBool b) = Inr (OBool b)"
  by simp

text \<open>
  C9. A sequence or a mapping that holds an unrepresentable item (here a list
  \<^verbatim>\<open>[1, set()]\<close> and a dict \<^verbatim>\<open>{"k": set()}\<close>) makes the constructor fail with
  Python's \<open>TypeError\<close>, raised by the call \<^verbatim>\<open>ObjectDataError(self, item)\<close>
  itself, and not with an \<open>ObjectDataError\<close>.
\<close>

theorem unrepresentable_item_raises_TypeError:
  "SequenceObject_init [PInt 1, POther] = Inl TypeError
   \<and> MappingObject_init [(''k'', POther)] = Inl TypeError
   \<and> SequenceObject_init [PInt 1, POther] \<noteq> Inl ObjectDataError
   \<and> MappingObject_init [(''k'', POther)] \<noteq> Inl ObjectDataError"
  by (simp add: ObjectDataError_init_def)

section \<open>Typed getters\<close>

lemma get_type_absent:
  "map_of self key = None \<Longrightarrow> get_type self key t = Inl (ObjectAttributeError key)"
  by (simp add: get_type_def)

lemma get_type_wrong_kind:
  "map_of self key = Some v \<Longrightarrow> \<not> isinstance v t
     \<Longrightarrow> get_type self key t = Inl (ObjectTypeError key)"
  by (simp add: get_type_def)

lemma get_type_present:
  "map_of self key = Some v \<Longrightarrow> isinstance v t \<Longrightarrow> get_type self key t = Inr v"
  by (simp add: get_type_def)

lemma get_type_error:
  "get_type self key t = Inl e \<Longrightarrow> e = ObjectAttributeError key \<or> e = ObjectTypeError key"
  by (auto simp: get_type_def split: option.splits if_splits)

text \<open>A stored boolean passes \<^verbatim>\<open>_get_int\<close>, since \<^verbatim>\<open>isinstance(True, int)\<close> holds.\<close>

lemma get_int_accepts_bool:
  "get_int [(''room_id'', OBool True)] ''room_id'' = Inr (OBool True)"
  by (simp add: get_int_def get_type_def)

lemma nullable_getter_absent:
  "map_of self ''name'' = None \<Longrightarrow> HomeData_name self = Inl (ObjectAttributeError ''name'')"
  "map_of self ''room_id'' = None
     \<Longrightarrow> ModuleData_room_id self = Inl (ObjectAttributeError ''room_id'')"
  by (simp_all add: HomeData_name_def ModuleData_room_id_def get_str_def get_int_def get_type_def)

text \<open>
  C8. The getters of the fields declared \<^verbatim>\<open>Optional\<close> raise
  \<open>ObjectAttributeError\<close> when the key is absent, as every typed getter does:
  \<^verbatim>\<open>HomeData({"id": "60478d1baf36ee032f3e0070"}).name\<close> and
  \<^verbatim>\<open>ModuleData({"id": "00:03:50:b7:71:be"}).room_id\<close> return no \<^verbatim>\<open>None\<close>.
\<close>

theorem nullable_getter_raises_on_absent_key:
  "HomeData_name [(''id'', OStr ''60478d1baf36ee032f3e0070'')]
     = Inl (ObjectAttributeError ''name'')
   \<and> ModuleData_room_id [(''id'', OStr ''00:03:50:b7:71:be'')]
     = Inl (ObjectAttributeError ''room_id'')"
  by (simp add: HomeData_name_def ModuleData_room_id_def get_str_def get_int_def get_type_def)

section \<open>Attribute references of the timetable and the schedule\<close>

lemmas names_defs =
  getattr_def Timetable_names_def Schedule_names_def SequenceObject_names_def
  MappingObject_names_def Object_names_def

text \<open>
  The names that \<^verbatim>\<open>Timetable.get_week\<close>, \<^verbatim>\<open>Timetable.get_period\<close> and
  \<^verbatim>\<open>Schedule.get_period\<close> look up on \<^verbatim>\<open>self\<close> and that \<^verbatim>\<open>self\<close> does not have. A
  \<^verbatim>\<open>Schedule\<close> has the properties \<^verbatim>\<open>timetable\<close> and \<^verbatim>\<open>type\<close>; a \<^verbatim>\<open>Timetable\<close> has
  neither.
\<close>

lemma Timetable_has_no_timetable:
  "getattr Timetable_names ''timetable'' = Inl AttributeError"
  by (simp add: names_defs)

lemma Timetable_has_no_type:
  "getattr Timetable_names ''type'' = Inl AttributeError"
  by (simp add: names_defs)

lemma Timetable_has_no_get_week_timepoints:
  "getattr Timetable_names ''get_week_timepoints'' = Inl AttributeError"
  by (simp add: names_defs)

lemma Schedule_has_no_get_period_timepoints:
  "getattr Schedule_names ''get_period_timepoints'' = Inl AttributeError"
  by (simp add: names_defs)

lemma Schedule_has_no_get_zone_by_id:
  "getattr Schedule_names ''get_zone_by_id'' = Inl AttributeError"
  by (simp add: names_defs)

lemma Schedule_has_timetable_and_type:
  "getattr Schedule_names ''timetable'' = Inr ''timetable''"
  "getattr Schedule_names ''type'' = Inr ''type''"
  by (simp_all add: names_defs)

lemma Timetable_has_get_week:
  "getattr Timetable_names ''get_week'' = Inr ''get_week''"
  by (simp add: names_defs)

section \<open>How the timetable methods end\<close>

text \<open>
  \<^verbatim>\<open>Timetable.get_week\<close> raises for every input: \<open>ValueError\<close> when the reference
  has no \<^verbatim>\<open>tzinfo\<close>, and otherwise the \<open>AttributeError\<close> of \<^verbatim>\<open>self.timetable\<close>.
\<close>

lemma get_week_no_tzinfo:
  "tzinfo week = None \<Longrightarrow> get_week self week home_tz = Inl ValueError"
  by (simp add: get_week_def)

lemma get_week_tzinfo:
  "tzinfo week \<noteq> None \<Longrightarrow> get_week self week home_tz = Inl AttributeError"
  by (simp add: get_week_def Timetable_has_no_timetable)

lemma get_week_ValueError_iff:
  "get_week self week home_tz = Inl ValueError \<longleftrightarrow> tzinfo week = None"
  by (cases "tzinfo week = None") (simp_all add: get_week_no_tzinfo get_week_tzinfo)

text \<open>
  \<^verbatim>\<open>Timetable.get_period\<close> yields nothing and raises for every input:
  \<open>ValueError\<close> when a bound has no \<^verbatim>\<open>tzinfo\<close>, and otherwise the \<open>AttributeError\<close>
  of \<^verbatim>\<open>self.get_week_timepoints\<close>.
\<close>

lemma get_period_no_tzinfo:
  "tzinfo dt_from = None \<or> tzinfo dt_to = None
     \<Longrightarrow> get_period self dt_from dt_to count_max home_tz = ([], Raised ValueError)"
  by (simp add: get_period_def)

lemma get_period_tzinfo:
  "tzinfo dt_from \<noteq> None \<Longrightarrow> tzinfo dt_to \<noteq> None
     \<Longrightarrow> get_period self dt_from dt_to count_max home_tz = ([], Raised AttributeError)"
  by (simp add: get_period_def Timetable_has_no_get_week_timepoints)

lemma get_period_ValueError_iff:
  "snd (get_period self dt_from dt_to count_max home_tz) = Raised ValueError
     \<longleftrightarrow> tzinfo dt_from = None \<or> tzinfo dt_to = None"
  by (cases "tzinfo dt_from = None \<or> tzinfo dt_to = None")
     (simp_all add: get_period_no_tzinfo get_period_tzinfo)

lemma get_period_defaults:
  "get_period self datetime_min datetime_max None False = ([], Raised ValueError)"
  by (simp add: get_period_no_tzinfo datetime_min_def)

text \<open>
  \<^verbatim>\<open>Schedule.get_period\<close> yields nothing and raises the \<open>AttributeError\<close> of
  \<^verbatim>\<open>self.get_period_timepoints\<close> for every input.
\<close>

lemma Schedule_get_period_raises:
  "Schedule_get_period self dt_from dt_to count_max home_tz = ([], Raised AttributeError)"
  by (simp add: Schedule_get_period_def Schedule_has_no_get_period_timepoints)

section \<open>The week of a timetable\<close>

text \<open>
  C1. For a schedule of type therm or cooling the week is to hold every timepoint
  but the first one when the first and the last point to the same zone. The
  timetable \<^verbatim>\<open>[{"zone_id": 1, "m_offset": 0}, {"zone_id": 2, "m_offset": 600},
  {"zone_id": 1, "m_offset": 1200}]\<close> is listed in chronological order and its
  first and last timepoints share the zone 1, so two entries are due;
  \<^verbatim>\<open>get_week\<close> with a reference in the home's zone returns no week and raises
  \<open>AttributeError\<close>.
\<close>

theorem get_week_same_zone_raises_AttributeError:
  "get_week (example_timetable [example_item 1 0, example_item 2 600, example_item 1 1200])
     (example_datetime 0) False = Inl AttributeError"
  by (simp add: get_week_def example_datetime_def names_defs)

text \<open>
  C2. On an empty timetable and a reference with a \<^verbatim>\<open>tzinfo\<close>, \<^verbatim>\<open>get_week\<close> raises:
  it ends with the \<open>AttributeError\<close> of \<^verbatim>\<open>self.timetable\<close>. (The \<open>ValueError\<close> of
  line 308 is not reached, and is constructed without \<^verbatim>\<open>raise\<close>.)
\<close>

theorem get_week_empty_timetable_raises:
  assumes "sequence self = []" and "tzinfo week \<noteq> None"
  shows "get_week self week home_tz = Inl AttributeError"
  using assms(2) by (rule get_week_tzinfo)

theorem get_week_empty_timetable_raises_witness:
  "sequence (example_timetable []) = [] \<and> tzinfo (example_datetime 0) \<noteq> None
     \<and> get_week (example_timetable []) (example_datetime 0) False = Inl AttributeError"
  using get_week_empty_timetable_raises [of "example_timetable []" "example_datetime 0" False]
  by (simp add: example_timetable_def example_datetime_def)

text \<open>
  C7. The week is to be a sequence in strictly ascending order. \<^verbatim>\<open>get_week\<close>
  returns no sequence, whatever the timetable, the reference and \<^verbatim>\<open>home_tz\<close> are.
\<close>

theorem get_week_returns_no_sequence:
  "get_week self week home_tz \<noteq> Inr week_timepoints"
  by (cases "tzinfo week = None") (simp_all add: get_week_no_tzinfo get_week_tzinfo)

section \<open>Walking a period\<close>




text \<open>
  C10. Without explicit bounds \<^verbatim>\<open>Timetable.get_period\<close> raises the \<open>ValueError\<close> of
  its test of the bounds; \<^verbatim>\<open>Schedule.get_period\<close> does not: it raises
  \<open>AttributeError\<close>, as it does with any bounds. Neither yields an entry.
\<close>

theorem Schedule_get_period_defaults_raise_AttributeError:
  "get_period self datetime_min datetime_max None False = ([], Raised ValueError)
     \<and> Schedule_get_period schedule datetime_min datetime_max None False
         = ([], Raised AttributeError)"
  by (simp add: get_period_defaults Schedule_get_period_raises)

section \<open>References without a UTC offset\<close>

lemmas example_eval =
  get_datetime_def astimezone_def utcoffset_def at_offset_def wall_def weekday_def combine_def
  get_timedelta_def m_offset_def get_int_def get_type_def timedelta_minutes_def time_of_def
  example_timepoint_def example_datetime_def example_tz_def example_naive_week_def
  no_offset_tz_def system_utc_def MINUTE_def DAY_def Let_def

text \<open>
  \<^verbatim>\<open>get_datetime\<close> raises \<open>ValueError\<close> when the reference has no \<^verbatim>\<open>tzinfo\<close>.
\<close>

lemma get_datetime_no_tzinfo:
  "tzinfo week = None \<Longrightarrow> get_datetime localzone tp week home_timezone = Inl ValueError"
  by (simp add: get_datetime_def)

text \<open>
  The getters of a timepoint raise no \<open>ValueError\<close>, so with a reference that has
  a \<^verbatim>\<open>tzinfo\<close> a \<open>ValueError\<close> of \<^verbatim>\<open>get_datetime\<close> can only come out of
  \<^verbatim>\<open>astimezone\<close>, that is out of \<^verbatim>\<open>fromutc\<close> of the home's or of the reference's
  zone.
\<close>

lemma get_timedelta_error:
  "get_timedelta tp = Inl e \<Longrightarrow> e = ObjectAttributeError ''m_offset'' \<or> e = ObjectTypeError ''m_offset''"
  using get_type_error [of "tp_mapping tp" "''m_offset''" Tint e]
  by (auto simp: get_timedelta_def m_offset_def get_int_def split: sum.splits)

lemma astimezone_no_ValueError:
  "\<forall>u. fromutc tz u \<noteq> Inl ValueError \<Longrightarrow> astimezone localzone dt tz \<noteq> Inl ValueError"
  by (simp add: astimezone_def)

lemma get_datetime_ValueError_only_from_fromutc:
  assumes "tzinfo week = Some week_timezone"
    and "\<forall>u. fromutc (tp_timezone tp) u \<noteq> Inl ValueError"
    and "\<forall>u. fromutc week_timezone u \<noteq> Inl ValueError"
  shows "get_datetime localzone tp week home_timezone \<noteq> Inl ValueError"
proof
  assume raised: "get_datetime localzone tp week home_timezone = Inl ValueError"
  have to_home: "astimezone localzone week (tp_timezone tp) \<noteq> Inl ValueError"
    using assms(2) by (rule astimezone_no_ValueError)
  have to_week: "astimezone localzone dt week_timezone \<noteq> Inl ValueError" for dt
    using assms(3) by (rule astimezone_no_ValueError)
  have td: "get_timedelta tp \<noteq> Inl ValueError"
    using get_timedelta_error [of tp ValueError] by auto
  show False
    using raised assms(1) to_home to_week td
    by (auto simp: get_datetime_def Let_def split: sum.splits if_splits)
qed

lemma fromutc_FixedOffset_no_error: "fromutc (FixedOffset off) u \<noteq> Inl e"
  by simp

lemma fromutc_DstTzInfo_no_error: "fromutc (DstTzInfo zone_fromutc localize off) u \<noteq> Inl e"
  by simp

text \<open>
  C6. A reference whose \<^verbatim>\<open>tzinfo\<close> is set and whose \<^verbatim>\<open>utcoffset()\<close> is \<^verbatim>\<open>None\<close> is a
  naive datetime that \<^verbatim>\<open>get_datetime\<close> does not reject: with \<^verbatim>\<open>home_timezone=True\<close>
  it reads the reference as local time of the system and returns the timepoint's
  datetime in that week.
\<close>

theorem get_datetime_accepts_naive_reference:
  "tzinfo example_naive_week \<noteq> None \<and> utcoffset example_naive_week = None
     \<and> get_datetime system_utc (example_timepoint 1 0) example_naive_week True
         = Inr (example_datetime 0)"
  by (simp add: example_eval)

text \<open>
  With \<^verbatim>\<open>home_timezone=False\<close> the same reference does end in a \<open>ValueError\<close>, the
  one \<^verbatim>\<open>fromutc\<close> raises in the last line of \<^verbatim>\<open>get_datetime\<close>; and \<^verbatim>\<open>get_week\<close> and
  \<^verbatim>\<open>get_period\<close> pass their test of the reference and raise \<open>AttributeError\<close>.
\<close>

lemma get_datetime_naive_reference_fromutc:
  "get_datetime system_utc (example_timepoint 1 0) example_naive_week False = Inl ValueError"
  by (simp add: example_eval)

lemma get_week_naive_reference:
  "get_week self example_naive_week home_tz = Inl AttributeError"
  by (simp add: get_week_tzinfo example_naive_week_def)

lemma get_period_naive_reference:
  "get_period self example_naive_week example_naive_week count_max home_tz
     = ([], Raised AttributeError)"
  by (simp add: get_period_tzinfo example_naive_week_def)

text \<open>The timepoint at offset 0 resolves to the Monday midnight of the reference's week.\<close>

lemma get_datetime_example:
  "get_datetime system_utc (example_timepoint 1 0) (example_datetime 0) False
     = Inr (example_datetime 0)"
  by (simp add: example_eval)

lemma get_datetime_example_other_zone:
  "get_datetime system_utc (example_timepoint 1 90)
     \<lparr>date = 738251, time = 0, tzinfo = Some (FixedOffset 0), fold = False\<rparr> False
     = Inr \<lparr>date = 738248, time = 1410 * MINUTE, tzinfo = Some (FixedOffset 0), fold = False\<rparr>"
  by (simp add: example_eval)

section \<open>The wall-clock value of a resolved timepoint\<close>

lemma time_of_timedelta:
  "time_of (seconds (timedelta_minutes m) div 3600) (seconds (timedelta_minutes m) div 60 mod 60)
     = (m mod 1440) * MINUTE"
proof -
  define x where "x = m mod 1440"
  have "x * 60 div 3600 = x div 60"
    by simp
  moreover have "x * 60 div 60 = x"
    by simp
  moreover have "x div 60 * 60 + x mod 60 = x"
    by simp
  ultimately have "(x * 60 div 3600) * 60 * MINUTE + (x * 60 div 60 mod 60) * MINUTE = x * MINUTE"
    by (metis distrib_right)
  then show ?thesis
    by (simp add: time_of_def timedelta_minutes_def x_def)
qed

lemma date_dt_localize: "date (dt_localize dt tz) = date dt"
  by (cases "(dt, tz)" rule: dt_localize.cases) auto

lemma time_dt_localize: "time (dt_localize dt tz) = time dt"
  by (cases "(dt, tz)" rule: dt_localize.cases) auto

lemma fold_dt_localize: "fold (dt_localize dt tz) = fold dt"
  by (cases "(dt, tz)" rule: dt_localize.cases) auto

text \<open>
  What \<^verbatim>\<open>get_datetime\<close> localizes in the home's zone: the date of the Monday of the
  reference's week there plus \<open>m div 1440\<close> days, at \<open>m mod 1440\<close> minutes after
  midnight, for the offset \<open>m\<close> of the timepoint, with \<^verbatim>\<open>fold=0\<close>. Which UTC offset
  a pytz zone attaches to an ambiguous or a skipped wall-clock value is decided
  inside \<^verbatim>\<open>tz.localize\<close>, the parameter \<open>localize\<close> of \<open>DstTzInfo\<close>.
\<close>

lemma get_datetime_wall_clock:
  assumes "get_datetime localzone tp week True = Inr d" and "m_offset tp = Inr m"
    and "astimezone localzone week (tp_timezone tp) = Inr w"
  shows "date d = date w - weekday w + int_value m div 1440
         \<and> time d = (int_value m mod 1440) * MINUTE
         \<and> fold d = False
         \<and> d = dt_localize (combine (date d) (time d)) (Some (tp_timezone tp))"
proof -
  have td: "get_timedelta tp = Inr (timedelta_minutes (int_value m))"
    using assms(2) by (simp add: get_timedelta_def)
  from assms(1) obtain wtz where "tzinfo week = Some wtz"
    by (auto simp: get_datetime_def split: option.splits)
  with assms(1) assms(3) td have d: "d = dt_localize
      (combine (date w - weekday w + int_value m div 1440) ((int_value m mod 1440) * MINUTE))
      (Some (tp_timezone tp))"
    by (simp add: get_datetime_def Let_def date_dt_localize time_of_timedelta combine_def)
       (simp add: timedelta_minutes_def)
  have "date d = date w - weekday w + int_value m div 1440"
    and "time d = (int_value m mod 1440) * MINUTE"
    and "fold d = False"
    by (simp_all add: d date_dt_localize time_dt_localize fold_dt_localize combine_def)
  with d show ?thesis by simp
qed

lemma get_datetime_returns_localized:
  assumes "get_datetime localzone tp week True = Inr d"
  shows "d = dt_localize (combine (date d) (time d)) (Some (tp_timezone tp))"
proof -
  from assms obtain m where m: "m_offset tp = Inr m"
    by (auto simp: get_datetime_def get_timedelta_def Let_def split: option.splits sum.splits)
  from assms obtain w where w: "astimezone localzone week (tp_timezone tp) = Inr w"
    by (auto simp: get_datetime_def split: option.splits sum.splits)
  show ?thesis
    using get_datetime_wall_clock [OF assms m w] by blast
qed

text \<open>
  In a pytz zone the UTC offset of the result is the one \<^verbatim>\<open>tz.localize\<close> chooses
  for the wall-clock value, for an ambiguous or a skipped value as for any other;
  in a zone of another class it is the one the zone reports for the wall-clock
  value with \<^verbatim>\<open>fold=0\<close>.
\<close>

lemma get_datetime_localized_by_zone:
  assumes tz: "tp_timezone tp = DstTzInfo zone_fromutc localize off"
    and d: "get_datetime localzone tp week True = Inr d"
  shows "utcoffset d = Some (localize (wall d))"
proof -
  define x where "x = combine (date d) (time d)"
  have eq: "d = dt_localize x (Some (DstTzInfo zone_fromutc localize off))"
    using get_datetime_returns_localized [OF d] tz unfolding x_def by metis
  have wx: "wall x = wall d"
    by (simp add: x_def combine_def wall_def)
  have "tzinfo (dt_localize x (Some (DstTzInfo zone_fromutc localize off)))
          = Some (DstTzInfo zone_fromutc localize (localize (wall x)))"
    by simp
  with eq wx have "tzinfo d = Some (DstTzInfo zone_fromutc localize (localize (wall d)))"
    by simp
  then show ?thesis by (simp add: utcoffset_def)
qed

lemma get_datetime_first_fold:
  assumes tz: "tp_timezone tp = OtherTz offset tz_fromutc"
    and d: "get_datetime localzone tp week True = Inr d"
  shows "utcoffset d = offset (wall d) False"
proof -
  define x where "x = combine (date d) (time d)"
  have eq: "d = dt_localize x (Some (OtherTz offset tz_fromutc))"
    using get_datetime_returns_localized [OF d] tz unfolding x_def by metis
  have "tzinfo (dt_localize x (Some (OtherTz offset tz_fromutc))) = Some (OtherTz offset tz_fromutc)"
    and "fold (dt_localize x (Some (OtherTz offset tz_fromutc))) = False"
    by (simp_all add: x_def combine_def)
  with eq have "tzinfo d = Some (OtherTz offset tz_fromutc)" and "fold d = False"
    by simp_all
  then show ?thesis by (simp add: utcoffset_def)
qed


end
